theory Spec2Isabelle
  imports Main
begin

section \<open>Data model\<close>

text \<open>
  The embedding follows the Mongoose schemas and the Express route handlers of the
  repository. Conventions:
  \<^item> a JavaScript \<open>Date\<close> is its time value, an \<open>int\<close> of milliseconds since the epoch;
    \<open>new Date()\<close> is the parameter \<open>now\<close> of the handler that calls it (one instant for
    one request);
  \<^item> the schema type \<open>Number\<close> is modelled as \<open>int\<close>: week numbers, day counts and
    millisecond differences are whole numbers, on which \<open>Math.floor (a / b)\<close> is
    \<open>a div b\<close> (\<open>div\<close> on \<open>int\<close> rounds towards minus infinity, as \<open>Math.floor\<close> does);
  \<^item> an \<open>ObjectId\<close> is a \<open>nat\<close>; a collection is the list of its documents in natural
    order, and \<open>findOne\<close> returns the first document that matches (\<open>find\<close>);
  \<^item> a field of a request body that may be missing is an \<open>option\<close>;
  \<^item> a handler returns the response and the new database.
\<close>

datatype status = Active | Paused | Completed

record mealItem =
  name :: string
  quantity :: string

record meal =
  time :: string
  items :: "mealItem list"

record dietPlan =
  meals :: "meal list"
  totalCalories :: int
  carbs :: int
  protein :: int
  fats :: int

record goals =
  targetWeight :: "int option"
  dailyStepsGoal :: "int option"
  weeklyWorkoutGoal :: "int option"

record plan =
  plan_id :: nat
  userId :: nat
  startDate :: int
  numberOfWeeks :: int
  currentWeek :: int
  status :: status
  pausedAt :: "int option"
  pausedDays :: int
  dietPlan :: dietPlan
  goals :: goals

record steps =
  steps_id :: nat
  steps_userId :: nat
  steps_planId :: "nat option"
  steps_date :: int
  steps_week :: int
  steps_count :: int
  steps_goal :: int
  steps_distance :: "int option"
  steps_caloriesBurned :: "int option"

record db =
  plans :: "plan list"
  stepsEntries :: "steps list"
  nextId :: nat

text \<open>
  What a handler answers: \<open>res.status(c).json({success: true, data: d})\<close> is \<open>Json c d\<close>,
  \<open>res.status(c).json({success: false, ...})\<close> is \<open>Fail c\<close>, a success without data is
  \<open>Done c\<close>, and \<open>next(error)\<close> is \<open>Next error\<close>.
\<close>

datatype error = ValidationError

datatype 'a response = Json nat 'a | Done nat | Fail nat | Next error

section \<open>The plan model (models/Plan.js)\<close>

text \<open>\<open>planSchema.methods.calculateCurrentWeek\<close>.\<close>

definition calculateCurrentWeek :: "plan \<Rightarrow> int \<Rightarrow> int" where
  "calculateCurrentWeek this now =
     (if status this = Paused then currentWeek this
      else
        let start = startDate this;
            diffTime = now - start - (pausedDays this * 24 * 60 * 60 * 1000);
            diffDays = diffTime div (1000 * 60 * 60 * 24);
            week = diffDays div 7 + 1
        in min (max week 1) (numberOfWeeks this))"

text \<open>\<open>planSchema.methods.isCompleted\<close>.\<close>

definition isCompleted :: "plan \<Rightarrow> int \<Rightarrow> bool" where
  "isCompleted this now \<longleftrightarrow> calculateCurrentWeek this now > numberOfWeeks this"

text \<open>
  The validators of the schema: \<open>numberOfWeeks\<close> has \<open>min 1\<close> and \<open>max 52\<close>; a meal of the
  diet plan has a \<open>time\<close> out of a fixed enumeration, and its items have a required
  \<open>name\<close> and \<open>quantity\<close> (a required string is not empty).
\<close>

definition mealTimes :: "string list" where
  "mealTimes = [''upon_wakeup'', ''oil_for_cooking'', ''pre_workout'', ''breakfast'',
     ''lunch'', ''snacks'', ''dinner'']"

definition valid_numberOfWeeks :: "int \<Rightarrow> bool" where
  "valid_numberOfWeeks n \<longleftrightarrow> 1 \<le> n \<and> n \<le> 52"

definition valid_mealItem :: "mealItem \<Rightarrow> bool" where
  "valid_mealItem i \<longleftrightarrow> name i \<noteq> [] \<and> quantity i \<noteq> []"

definition valid_meal :: "meal \<Rightarrow> bool" where
  "valid_meal m \<longleftrightarrow> time m \<in> set mealTimes \<and> list_all valid_mealItem (items m)"

definition valid_dietPlan :: "dietPlan \<Rightarrow> bool" where
  "valid_dietPlan d \<longleftrightarrow> list_all valid_meal (meals d)"

text \<open>
  The defaults of the schema. A diet plan of a body is taken as cast already (its numbers
  present), and \<open>dietPlan || {}\<close> is the default diet plan. The goals of a body may lack
  any field, \<open>goals || {}\<close> lacks them all, and \<open>Plan.create\<close> fills the schema defaults
  (\<open>dailyStepsGoal 10000\<close>, \<open>weeklyWorkoutGoal 4\<close>) into the fields that are missing.
\<close>

definition default_dietPlan :: dietPlan where
  "default_dietPlan = \<lparr>meals = [], totalCalories = 0, carbs = 0, protein = 0, fats = 0\<rparr>"

definition empty_goals :: goals where
  "empty_goals = \<lparr>targetWeight = None, dailyStepsGoal = None, weeklyWorkoutGoal = None\<rparr>"

definition goals_defaults :: "goals \<Rightarrow> goals" where
  "goals_defaults g =
     \<lparr>targetWeight = targetWeight g,
      dailyStepsGoal = (case dailyStepsGoal g of Some v \<Rightarrow> Some v | None \<Rightarrow> Some 10000),
      weeklyWorkoutGoal = (case weeklyWorkoutGoal g of Some v \<Rightarrow> Some v | None \<Rightarrow> Some 4)\<rparr>"

definition default_goals :: goals where
  "default_goals =
     \<lparr>targetWeight = None, dailyStepsGoal = Some 10000, weeklyWorkoutGoal = Some 4\<rparr>"

text \<open>
  \<open>document.save()\<close> writes the document over the stored one with the same \<open>_id\<close>;
  the handlers below run the validators of the paths they have modified before calling it.
\<close>

definition save_plan :: "db \<Rightarrow> plan \<Rightarrow> db" where
  "save_plan d p = d\<lparr>plans := map (\<lambda>q. if plan_id q = plan_id p then p else q) (plans d)\<rparr>"

section \<open>The plan routes (routes/plan.js)\<close>

record create_body =
  cb_startDate :: "int option"
  cb_numberOfWeeks :: "int option"
  cb_dietPlan :: "dietPlan option"
  cb_goals :: "goals option"

text \<open>
  \<open>Plan.create\<close>: the document gets the schema defaults (\<open>currentWeek 1\<close>, \<open>status active\<close>,
  \<open>pausedAt null\<close>, \<open>pausedDays 0\<close>, the defaults of the goals), every path is validated, and the document is
  appended to the collection under a fresh \<open>_id\<close>. A \<open>startDate\<close> of \<open>None\<close> stands for a
  body whose \<open>new Date(startDate)\<close> is an invalid date, which the required \<open>Date\<close> path
  rejects.
\<close>

definition Plan_create ::
  "db \<Rightarrow> nat \<Rightarrow> int option \<Rightarrow> int option \<Rightarrow> dietPlan \<Rightarrow> goals \<Rightarrow> error + (plan \<times> db)" where
  "Plan_create d uid sd nw dp gs =
     (case (sd, nw) of
        (Some s, Some n) \<Rightarrow>
          if valid_numberOfWeeks n \<and> valid_dietPlan dp then
            let p = \<lparr>plan_id = nextId d, userId = uid, startDate = s, numberOfWeeks = n,
                     currentWeek = 1, status = Active, pausedAt = None, pausedDays = 0,
                     dietPlan = dp, goals = goals_defaults gs\<rparr>
            in Inr (p, d\<lparr>plans := plans d @ [p], nextId := nextId d + 1\<rparr>)
          else Inl ValidationError
      | _ \<Rightarrow> Inl ValidationError)"

text \<open>The query \<open>{userId, status: {$in: ['active', 'paused']}}\<close>.\<close>

definition activeOrPaused :: "nat \<Rightarrow> plan \<Rightarrow> bool" where
  "activeOrPaused uid p \<longleftrightarrow> userId p = uid \<and> (status p = Active \<or> status p = Paused)"

text \<open>\<open>POST /api/plan\<close>.\<close>

definition post_plan :: "db \<Rightarrow> nat \<Rightarrow> create_body \<Rightarrow> plan response \<times> db" where
  "post_plan d uid body =
     (case find (activeOrPaused uid) (plans d) of
        Some existingPlan \<Rightarrow> (Fail 400, d)
      | None \<Rightarrow>
          (case Plan_create d uid (cb_startDate body) (cb_numberOfWeeks body)
                  (case cb_dietPlan body of Some dp \<Rightarrow> dp | None \<Rightarrow> default_dietPlan)
                  (case cb_goals body of Some g \<Rightarrow> g | None \<Rightarrow> empty_goals) of
             Inl e \<Rightarrow> (Next e, d)
           | Inr (p, d') \<Rightarrow> (Json 201 p, d')))"

text \<open>
  \<open>GET /api/plan\<close>. The data of the answer is the plan with \<open>currentWeek\<close> overridden by
  \<open>calculateCurrentWeek()\<close>.
\<close>

definition get_plan :: "db \<Rightarrow> nat \<Rightarrow> int \<Rightarrow> plan response \<times> db" where
  "get_plan d uid now =
     (case find (activeOrPaused uid) (plans d) of
        None \<Rightarrow> (Fail 404, d)
      | Some p \<Rightarrow>
          let currentWeek' = calculateCurrentWeek p now in
          if status p = Active \<and> currentWeek' > numberOfWeeks p then
            let p' = p\<lparr>status := Completed\<rparr>
            in (Json 200 (p'\<lparr>currentWeek := calculateCurrentWeek p' now\<rparr>), save_plan d p')
          else (Json 200 (p\<lparr>currentWeek := calculateCurrentWeek p now\<rparr>), d))"

text \<open>\<open>PUT /api/plan/pause\<close>: the three assignments in the order of the source.\<close>

definition put_pause :: "db \<Rightarrow> nat \<Rightarrow> int \<Rightarrow> plan response \<times> db" where
  "put_pause d uid now =
     (case find (\<lambda>p. userId p = uid \<and> status p = Active) (plans d) of
        None \<Rightarrow> (Fail 404, d)
      | Some p \<Rightarrow>
          let p1 = p\<lparr>status := Paused\<rparr>;
              p2 = p1\<lparr>pausedAt := Some now\<rparr>;
              p3 = p2\<lparr>currentWeek := calculateCurrentWeek p2 now\<rparr>
          in (Json 200 p3, save_plan d p3))"

text \<open>
  \<open>PUT /api/plan/resume\<close>. In \<open>now - plan.pausedAt\<close> a \<open>pausedAt\<close> of \<open>null\<close> counts as 0.
\<close>

definition put_resume :: "db \<Rightarrow> nat \<Rightarrow> int \<Rightarrow> plan response \<times> db" where
  "put_resume d uid now =
     (case find (\<lambda>p. userId p = uid \<and> status p = Paused) (plans d) of
        None \<Rightarrow> (Fail 404, d)
      | Some p \<Rightarrow>
          let pausedDays' =
                (now - (case pausedAt p of Some t \<Rightarrow> t | None \<Rightarrow> 0)) div (1000 * 60 * 60 * 24);
              p1 = p\<lparr>pausedDays := pausedDays p + pausedDays'\<rparr>;
              p2 = p1\<lparr>status := Active\<rparr>;
              p3 = p2\<lparr>pausedAt := None\<rparr>
          in (Json 200 (p3\<lparr>currentWeek := calculateCurrentWeek p3 now\<rparr>), save_plan d p3))"

record update_body =
  ub_dietPlan :: "dietPlan option"
  ub_goals :: "goals option"
  ub_numberOfWeeks :: "int option"

text \<open>The shallow merge \<open>{ ...plan.goals, ...goals }\<close>: a field of the body wins where present.\<close>

definition merge_goals :: "goals \<Rightarrow> goals \<Rightarrow> goals" where
  "merge_goals old new =
     \<lparr>targetWeight = (case targetWeight new of Some v \<Rightarrow> Some v | None \<Rightarrow> targetWeight old),
      dailyStepsGoal = (case dailyStepsGoal new of Some v \<Rightarrow> Some v | None \<Rightarrow> dailyStepsGoal old),
      weeklyWorkoutGoal =
        (case weeklyWorkoutGoal new of Some v \<Rightarrow> Some v | None \<Rightarrow> weeklyWorkoutGoal old)\<rparr>"

text \<open>
  \<open>PUT /api/plan/:id\<close>. The guard \<open>numberOfWeeks && numberOfWeeks >= ...\<close> is false for 0.
  \<open>plan.save()\<close> validates the modified paths: the diet plan when the body gave one, and
  \<open>numberOfWeeks\<close> when it was assigned; a failed validation leaves the database as it was.
\<close>

definition put_plan :: "db \<Rightarrow> nat \<Rightarrow> nat \<Rightarrow> update_body \<Rightarrow> int \<Rightarrow> plan response \<times> db" where
  "put_plan d uid pid body now =
     (case find (\<lambda>p. plan_id p = pid \<and> userId p = uid) (plans d) of
        None \<Rightarrow> (Fail 404, d)
      | Some p \<Rightarrow>
          let p1 = (case ub_dietPlan body of Some dp \<Rightarrow> p\<lparr>dietPlan := dp\<rparr> | None \<Rightarrow> p);
              p2 = (case ub_goals body of
                      Some g \<Rightarrow> p1\<lparr>goals := merge_goals (goals p1) g\<rparr> | None \<Rightarrow> p1);
              assigned = (case ub_numberOfWeeks body of
                            Some n \<Rightarrow> n \<noteq> 0 \<and> n \<ge> calculateCurrentWeek p2 now | None \<Rightarrow> False);
              p3 = (case ub_numberOfWeeks body of
                      Some n \<Rightarrow> if assigned then p2\<lparr>numberOfWeeks := n\<rparr> else p2 | None \<Rightarrow> p2)
          in if (case ub_dietPlan body of Some dp \<Rightarrow> valid_dietPlan (dietPlan p3) | None \<Rightarrow> True)
                \<and> (if assigned then valid_numberOfWeeks (numberOfWeeks p3) else True)
             then (Json 200 (p3\<lparr>currentWeek := calculateCurrentWeek p3 now\<rparr>), save_plan d p3)
             else (Next ValidationError, d))"

text \<open>\<open>DELETE /api/plan/:id\<close>: \<open>findOneAndDelete\<close> removes the first match.\<close>

definition delete_plan :: "db \<Rightarrow> nat \<Rightarrow> nat \<Rightarrow> plan response \<times> db" where
  "delete_plan d uid pid =
     (case find (\<lambda>p. plan_id p = pid \<and> userId p = uid) (plans d) of
        None \<Rightarrow> (Fail 404, d)
      | Some p \<Rightarrow> (Done 200, d\<lparr>plans := remove1 p (plans d)\<rparr>))"

section \<open>The logging routes\<close>

text \<open>
  The operator \<open>a || b\<close> on a number that may be missing: \<open>a\<close> when it is truthy (present
  and not 0), else \<open>b\<close>.
\<close>

definition or_else :: "int option \<Rightarrow> int \<Rightarrow> int" where
  "or_else a b = (case a of Some v \<Rightarrow> if v \<noteq> 0 then v else b | None \<Rightarrow> b)"

text \<open>
  Each of the four creating handlers looks the plan up and computes
  \<open>entryWeek = week || (plan ? plan.calculateCurrentWeek() : 1)\<close>; the entry it creates
  gets \<open>week: entryWeek\<close> and \<open>planId: plan?._id\<close>. The functions below are that pair,
  handler by handler: \<open>POST /api/weight\<close>, \<open>POST /api/workout\<close>, \<open>POST /api/steps\<close>
  and \<open>POST /api/meals\<close>.
\<close>

definition weight_post_week :: "db \<Rightarrow> nat \<Rightarrow> int option \<Rightarrow> int \<Rightarrow> int \<times> nat option" where
  "weight_post_week d uid week now =
     (let plan = find (activeOrPaused uid) (plans d);
          entryWeek = or_else week (case plan of Some p \<Rightarrow> calculateCurrentWeek p now | None \<Rightarrow> 1)
      in (entryWeek, map_option plan_id plan))"

definition workout_post_week :: "db \<Rightarrow> nat \<Rightarrow> int option \<Rightarrow> int \<Rightarrow> int \<times> nat option" where
  "workout_post_week d uid week now =
     (let plan = find (activeOrPaused uid) (plans d);
          entryWeek = or_else week (case plan of Some p \<Rightarrow> calculateCurrentWeek p now | None \<Rightarrow> 1)
      in (entryWeek, map_option plan_id plan))"

definition steps_post_week :: "db \<Rightarrow> nat \<Rightarrow> int option \<Rightarrow> int \<Rightarrow> int \<times> nat option" where
  "steps_post_week d uid week now =
     (let plan = find (activeOrPaused uid) (plans d);
          entryWeek = or_else week (case plan of Some p \<Rightarrow> calculateCurrentWeek p now | None \<Rightarrow> 1)
      in (entryWeek, map_option plan_id plan))"

text \<open>
  \<open>POST /api/meals\<close> answers 400 before it looks the plan up when the meal type or the
  items are missing or the items are empty (\<open>Inl 400\<close>).
\<close>

definition meals_post_week ::
  "db \<Rightarrow> nat \<Rightarrow> string option \<Rightarrow> 'a list option \<Rightarrow> int option \<Rightarrow> int \<Rightarrow> nat + int \<times> nat option" where
  "meals_post_week d uid mealType its week now =
     (if mealType = None \<or> mealType = Some [] \<or> its = None \<or> its = Some [] then Inl 400
      else
        let plan = find (activeOrPaused uid) (plans d);
            entryWeek = or_else week (case plan of Some p \<Rightarrow> calculateCurrentWeek p now | None \<Rightarrow> 1)
        in Inr (entryWeek, map_option plan_id plan))"

subsection \<open>Steps (models/Steps.js and the steps routes)\<close>

record steps_body =
  sb_count :: "int option"
  sb_goal :: "int option"
  sb_distance :: "int option"
  sb_caloriesBurned :: "int option"
  sb_date :: "int option"
  sb_week :: "int option"

text \<open>
  \<open>entryDate.setHours(0, 0, 0, 0)\<close> moves a date to the start of its day in the server's
  time zone, which is \<open>tz\<close> milliseconds ahead of UTC.
\<close>

definition setHours0 :: "int \<Rightarrow> int \<Rightarrow> int" where
  "setHours0 tz t = (t + tz) div 86400000 * 86400000 - tz"

text \<open>The validators of the steps schema.\<close>

definition valid_count :: "int \<Rightarrow> bool" where
  "valid_count c \<longleftrightarrow> 0 \<le> c \<and> c \<le> 100000"

definition valid_min0 :: "int option \<Rightarrow> bool" where
  "valid_min0 v = (case v of Some x \<Rightarrow> 0 \<le> x | None \<Rightarrow> True)"

definition save_steps :: "db \<Rightarrow> steps \<Rightarrow> db" where
  "save_steps d e =
     d\<lparr>stepsEntries := map (\<lambda>x. if steps_id x = steps_id e then e else x) (stepsEntries d)\<rparr>"

text \<open>
  \<open>POST /api/steps\<close>. On the branch of an existing entry the handler assigns \<open>count\<close> and
  \<open>goal\<close>, and \<open>distance\<close> and \<open>caloriesBurned\<close> when the body has them; \<open>save()\<close> validates
  these paths (a missing \<open>count\<close> fails as required). On the other branch \<open>Steps.create\<close>
  validates every path and appends the entry.
\<close>

definition steps_post :: "db \<Rightarrow> nat \<Rightarrow> steps_body \<Rightarrow> int \<Rightarrow> int \<Rightarrow> steps response \<times> db" where
  "steps_post d uid body now tz =
     (let entryDate = setHours0 tz (case sb_date body of Some t \<Rightarrow> t | None \<Rightarrow> now);
          plan = find (activeOrPaused uid) (plans d);
          (entryWeek, planId) = steps_post_week d uid (sb_week body) now;
          stepsGoal = or_else (sb_goal body)
                        (or_else (case plan of Some p \<Rightarrow> dailyStepsGoal (goals p) | None \<Rightarrow> None)
                           10000)
      in case find (\<lambda>e. steps_userId e = uid \<and> steps_date e = entryDate) (stepsEntries d) of
           Some stepsEntry \<Rightarrow>
             (case sb_count body of
                None \<Rightarrow> (Next ValidationError, d)
              | Some c \<Rightarrow>
                  let e1 = stepsEntry\<lparr>steps_count := c\<rparr>;
                      e2 = e1\<lparr>steps_goal := stepsGoal\<rparr>;
                      e3 = (case sb_distance body of
                              Some x \<Rightarrow> e2\<lparr>steps_distance := Some x\<rparr> | None \<Rightarrow> e2);
                      e4 = (case sb_caloriesBurned body of
                              Some x \<Rightarrow> e3\<lparr>steps_caloriesBurned := Some x\<rparr> | None \<Rightarrow> e3)
                  in if valid_count c \<and> valid_min0 (sb_distance body)
                        \<and> valid_min0 (sb_caloriesBurned body)
                     then (Json 201 e4, save_steps d e4)
                     else (Next ValidationError, d))
         | None \<Rightarrow>
             (case sb_count body of
                None \<Rightarrow> (Next ValidationError, d)
              | Some c \<Rightarrow>
                  if 1 \<le> entryWeek \<and> valid_count c \<and> valid_min0 (sb_distance body)
                     \<and> valid_min0 (sb_caloriesBurned body)
                  then
                    let e = \<lparr>steps_id = nextId d, steps_userId = uid, steps_planId = planId,
                             steps_date = entryDate, steps_week = entryWeek, steps_count = c,
                             steps_goal = stepsGoal, steps_distance = sb_distance body,
                             steps_caloriesBurned = sb_caloriesBurned body\<rparr>
                    in (Json 201 e, d\<lparr>stepsEntries := stepsEntries d @ [e], nextId := nextId d + 1\<rparr>)
                  else (Next ValidationError, d)))"

section \<open>Histories of requests\<close>

text \<open>
  A stored plan is reached from the empty database by a sequence of requests, each by
  some user at some instant. \<open>run\<close> is the database after such a sequence.
\<close>

datatype request =
    PostPlan nat create_body
  | GetPlan nat
  | PutPause nat
  | PutResume nat
  | PutPlan nat nat update_body
  | DeletePlan nat nat
  | PostSteps nat steps_body int

definition empty_db :: db where
  "empty_db = \<lparr>plans = [], stepsEntries = [], nextId = 0\<rparr>"

fun handle :: "db \<Rightarrow> int \<times> request \<Rightarrow> db" where
  "handle d (now, PostPlan uid body) = snd (post_plan d uid body)"
| "handle d (now, GetPlan uid) = snd (get_plan d uid now)"
| "handle d (now, PutPause uid) = snd (put_pause d uid now)"
| "handle d (now, PutResume uid) = snd (put_resume d uid now)"
| "handle d (now, PutPlan uid pid body) = snd (put_plan d uid pid body now)"
| "handle d (now, DeletePlan uid pid) = snd (delete_plan d uid pid)"
| "handle d (now, PostSteps uid body tz) = snd (steps_post d uid body now tz)"

definition run :: "(int \<times> request) list \<Rightarrow> db" where
  "run reqs = foldl handle empty_db reqs"

section \<open>The specification's formulations\<close>

text \<open>
  The specification's \<open>clamp(week, 1, numberOfWeeks)\<close>: the value itself inside the
  interval, and the nearer bound outside.
\<close>

definition clamp :: "int \<Rightarrow> int \<Rightarrow> int \<Rightarrow> int" where
  "clamp x lo hi = (if x < lo then lo else if hi < x then hi else x)"

text \<open>
  The specification's \<open>computeCurrentWeek()\<close>, in its words: the frozen \<open>currentWeek\<close> when
  paused; else \<open>elapsedMs = now - startDate - pausedDays * 86,400,000\<close>,
  \<open>elapsedDays = floor(elapsedMs / 86,400,000)\<close>, \<open>week = floor(elapsedDays / 7) + 1\<close>,
  clamped.
\<close>

definition elapsedDays :: "plan \<Rightarrow> int \<Rightarrow> int" where
  "elapsedDays p now = (now - startDate p - pausedDays p * 86400000) div 86400000"

definition computeCurrentWeek :: "plan \<Rightarrow> int \<Rightarrow> int" where
  "computeCurrentWeek p now =
     (if status p = Paused then currentWeek p
      else clamp (elapsedDays p now div 7 + 1) 1 (numberOfWeeks p))"

text \<open>
  The specification's week resolution: the plan's computed week and id when the user has
  an active or paused plan, week 1 and no id otherwise, and an explicit week first.
\<close>

definition resolveWeekAndPlan :: "db \<Rightarrow> nat \<Rightarrow> int option \<Rightarrow> int \<Rightarrow> int \<times> nat option" where
  "resolveWeekAndPlan d uid explicitWeek now =
     (case find (activeOrPaused uid) (plans d) of
        Some p \<Rightarrow>
          ((case explicitWeek of Some w \<Rightarrow> w | None \<Rightarrow> calculateCurrentWeek p now),
           Some (plan_id p))
      | None \<Rightarrow> ((case explicitWeek of Some w \<Rightarrow> w | None \<Rightarrow> 1), None))"

text \<open>Midnight UTC at the start of a day of January 2024, for the scenarios.\<close>

definition jan2024 :: "int \<Rightarrow> int" where
  "jan2024 n = 1704067200000 + (n - 1) * 86400000"

section \<open>Concrete inputs\<close>

text \<open>A plan as \<open>Plan.create\<close> stores it, with the default diet plan and goals.\<close>

definition new_plan :: "nat \<Rightarrow> nat \<Rightarrow> int \<Rightarrow> int \<Rightarrow> plan" where
  "new_plan i uid s n =
     \<lparr>plan_id = i, userId = uid, startDate = s, numberOfWeeks = n, currentWeek = 1,
      status = Active, pausedAt = None, pausedDays = 0, dietPlan = default_dietPlan,
      goals = default_goals\<rparr>"

text \<open>A four-week plan from 1 January 2024, active and (not reachable) paused in week 2.\<close>

definition plan_active :: plan where
  "plan_active = new_plan 0 7 (jan2024 1) 4"

definition plan_paused :: plan where
  "plan_paused = (new_plan 0 7 (jan2024 1) 4)\<lparr>status := Paused, currentWeek := 2\<rparr>"

definition body4 :: create_body where
  "body4 = \<lparr>cb_startDate = Some (jan2024 1), cb_numberOfWeeks = Some 4, cb_dietPlan = None,
             cb_goals = None\<rparr>"

text \<open>The history of one creation, and a database whose only plan is completed.\<close>

definition reqs_one :: "(int \<times> request) list" where
  "reqs_one = [(jan2024 1, PostPlan 7 body4)]"

definition plan_done :: plan where
  "plan_done = (new_plan 0 7 (jan2024 1) 4)\<lparr>status := Completed\<rparr>"

definition db_done :: db where
  "db_done = \<lparr>plans = [plan_done], stepsEntries = [], nextId = 1\<rparr>"

text \<open>
  What holds of every stored plan: the schema bounds on \<open>numberOfWeeks\<close>, and a stored
  \<open>currentWeek\<close> that is still the default 1 (no handler stores another value: the pause
  handler reads \<open>calculateCurrentWeek()\<close> after it has set the status to paused).
\<close>

definition plan_inv :: "plan \<Rightarrow> bool" where
  "plan_inv p \<longleftrightarrow> valid_numberOfWeeks (numberOfWeeks p) \<and> currentWeek p = 1"

text \<open>The history of a creation and a pause nine days later, and the plan it stores.\<close>

definition reqs_pause :: "(int \<times> request) list" where
  "reqs_pause = [(jan2024 1, PostPlan 7 body4), (jan2024 10, PutPause 7)]"

definition plan_stored_paused :: plan where
  "plan_stored_paused = (new_plan 0 7 (jan2024 1) 4)\<lparr>status := Paused, pausedAt := Some (jan2024 10)\<rparr>"



text \<open>Updates that ask for 60 weeks and for 3 weeks.\<close>

definition body60 :: update_body where
  "body60 = \<lparr>ub_dietPlan = None, ub_goals = None, ub_numberOfWeeks = Some 60\<rparr>"

definition body3 :: update_body where
  "body3 = \<lparr>ub_dietPlan = None, ub_goals = None, ub_numberOfWeeks = Some 3\<rparr>"

text \<open>
  A database with the active plan and one steps entry of its user for 2024-01-05, stored
  with week 1 and no plan id; and a steps request for the same day that asks for week 3.
\<close>

definition steps_old :: steps where
  "steps_old = \<lparr>steps_id = 1, steps_userId = 7, steps_planId = None, steps_date = jan2024 5,
     steps_week = 1, steps_count = 100, steps_goal = 8000, steps_distance = Some 2,
     steps_caloriesBurned = None\<rparr>"

definition db_steps :: db where
  "db_steps = \<lparr>plans = [plan_active], stepsEntries = [steps_old], nextId = 2\<rparr>"

definition steps_body5 :: steps_body where
  "steps_body5 = \<lparr>sb_count = Some 5000, sb_goal = None, sb_distance = None,
     sb_caloriesBurned = Some 300, sb_date = Some (jan2024 5 + 3600000), sb_week = Some 3\<rparr>"

section \<open>Evaluation and helper lemmas\<close>

lemmas route_defs =
  post_plan_def get_plan_def put_pause_def put_resume_def put_plan_def delete_plan_def
  Plan_create_def activeOrPaused_def valid_numberOfWeeks_def valid_dietPlan_def save_plan_def

lemma goals_defaults_empty [simp]: "goals_defaults empty_goals = default_goals"
  by (simp add: goals_defaults_def empty_goals_def default_goals_def)

lemma run_pause_resume:
  "run [(jan2024 1, PostPlan 7 body4), (jan2024 10, PutPause 7), (jan2024 15, PutResume 7)]
   = \<lparr>plans = [(new_plan 0 7 (jan2024 1) 4)\<lparr>pausedDays := 5\<rparr>], stepsEntries = [], nextId = 1\<rparr>"
  by (simp add: run_def empty_db_def body4_def new_plan_def route_defs default_dietPlan_def
      calculateCurrentWeek_def jan2024_def Let_def)

lemma isCompleted_unpaused: "status p \<noteq> Paused \<Longrightarrow> \<not> isCompleted p now"
  by (simp add: isCompleted_def calculateCurrentWeek_def Let_def)

lemma get_plan_keeps_plans: "plans (snd (get_plan d uid now)) = plans d"
  by (auto simp: get_plan_def calculateCurrentWeek_def Let_def split: option.splits)

lemma run_one: "run [(jan2024 1, PostPlan 7 body4)] = \<lparr>plans = [new_plan 0 7 (jan2024 1) 4], stepsEntries = [], nextId = 1\<rparr>"
  by (simp add: run_def empty_db_def body4_def new_plan_def route_defs default_dietPlan_def Let_def)

lemma find_Some_ex: "\<exists>x\<in>set xs. P x \<Longrightarrow> \<exists>y. find P xs = Some y"
  by (cases "find P xs") (auto simp: find_None_iff)

lemma find_SomeD: "find P xs = Some x \<Longrightarrow> x \<in> set xs \<and> P x"
  by (induction xs) (simp_all split: if_splits)

lemma save_plan_set: "q \<in> set (plans (save_plan d p)) \<Longrightarrow> q = p \<or> q \<in> set (plans d)"
  by (auto simp: save_plan_def)

lemma save_plan_inv:
  assumes "\<forall>q\<in>set (plans d). plan_inv q" and "plan_inv p"
  shows "\<forall>q\<in>set (plans (save_plan d p)). plan_inv q"
proof
  fix q assume "q \<in> set (plans (save_plan d p))"
  then have "q = p \<or> q \<in> set (plans d)" by (rule save_plan_set)
  with assms show "plan_inv q" by blast
qed

lemma post_plan_inv:
  assumes inv: "\<forall>q\<in>set (plans d). plan_inv q"
  shows "\<forall>q\<in>set (plans (snd (post_plan d uid body))). plan_inv q"
proof (cases "find (activeOrPaused uid) (plans d)")
  case (Some a)
  then have "snd (post_plan d uid body) = d" by (simp add: post_plan_def)
  with inv show ?thesis by simp
next
  case None
  let ?dp = "case cb_dietPlan body of Some dp \<Rightarrow> dp | None \<Rightarrow> default_dietPlan"
  let ?gs = "case cb_goals body of Some g \<Rightarrow> g | None \<Rightarrow> empty_goals"
  show ?thesis
  proof (cases "Plan_create d uid (cb_startDate body) (cb_numberOfWeeks body) ?dp ?gs")
    case (Inl e)
    with None have "snd (post_plan d uid body) = d" by (simp add: post_plan_def)
    with inv show ?thesis by simp
  next
    case (Inr r)
    obtain p d' where r: "r = (p, d')" by (cases r)
    from Inr r have "plan_inv p \<and> plans d' = plans d @ [p]"
      by (auto simp: Plan_create_def plan_inv_def Let_def split: option.splits if_splits)
    moreover from None Inr r have "snd (post_plan d uid body) = d'" by (simp add: post_plan_def)
    ultimately show ?thesis using inv by simp
  qed
qed

lemma put_pause_inv:
  assumes inv: "\<forall>q\<in>set (plans d). plan_inv q"
  shows "\<forall>q\<in>set (plans (snd (put_pause d uid now))). plan_inv q"
proof (cases "find (\<lambda>p. userId p = uid \<and> status p = Active) (plans d)")
  case None
  then have "snd (put_pause d uid now) = d" by (simp add: put_pause_def)
  with inv show ?thesis by simp
next
  case (Some p)
  let ?p3 = "p\<lparr>status := Paused, pausedAt := Some now, currentWeek := currentWeek p\<rparr>"
  from Some have "p \<in> set (plans d)" by (rule find_SomeD [THEN conjunct1])
  with inv have "plan_inv p" by blast
  then have "plan_inv ?p3" by (simp add: plan_inv_def)
  with inv have "\<forall>q\<in>set (plans (save_plan d ?p3)). plan_inv q" by (rule save_plan_inv)
  moreover from Some have "snd (put_pause d uid now) = save_plan d ?p3"
    by (simp add: put_pause_def calculateCurrentWeek_def Let_def)
  ultimately show ?thesis by (simp only:)
qed

lemma put_resume_inv:
  assumes inv: "\<forall>q\<in>set (plans d). plan_inv q"
  shows "\<forall>q\<in>set (plans (snd (put_resume d uid now))). plan_inv q"
proof (cases "find (\<lambda>p. userId p = uid \<and> status p = Paused) (plans d)")
  case None
  then have "snd (put_resume d uid now) = d" by (simp add: put_resume_def)
  with inv show ?thesis by simp
next
  case (Some p)
  from Some have "p \<in> set (plans d)" by (rule find_SomeD [THEN conjunct1])
  with inv have pi: "plan_inv p" by blast
  from Some obtain p3 where s: "snd (put_resume d uid now) = save_plan d p3"
    and n: "numberOfWeeks p3 = numberOfWeeks p" and c: "currentWeek p3 = currentWeek p"
    by (simp add: put_resume_def Let_def)
  from pi n c have "plan_inv p3" by (simp add: plan_inv_def)
  with inv show ?thesis unfolding s by (rule save_plan_inv)
qed

lemma calc_frame:
  "status q = status p \<Longrightarrow> currentWeek q = currentWeek p \<Longrightarrow> startDate q = startDate p
   \<Longrightarrow> pausedDays q = pausedDays p \<Longrightarrow> numberOfWeeks q = numberOfWeeks p
   \<Longrightarrow> calculateCurrentWeek q now = calculateCurrentWeek p now"
  by (simp add: calculateCurrentWeek_def)

lemma calc_dietPlan_upd: "calculateCurrentWeek (q\<lparr>dietPlan := x\<rparr>) now = calculateCurrentWeek q now"
  by (simp add: calculateCurrentWeek_def)

lemma calc_goals_upd: "calculateCurrentWeek (q\<lparr>goals := x\<rparr>) now = calculateCurrentWeek q now"
  by (simp add: calculateCurrentWeek_def)

lemma put_plan_inv:
  assumes inv: "\<forall>q\<in>set (plans d). plan_inv q"
  shows "\<forall>q\<in>set (plans (snd (put_plan d uid pid body now))). plan_inv q"
proof (cases "find (\<lambda>p. plan_id p = pid \<and> userId p = uid) (plans d)")
  case None
  then have "snd (put_plan d uid pid body now) = d" by (simp add: put_plan_def)
  with inv show ?thesis by simp
next
  case (Some p)
  from Some have "p \<in> set (plans d)" by (rule find_SomeD [THEN conjunct1])
  with inv have pi: "plan_inv p" by blast
  from Some have "snd (put_plan d uid pid body now) = d
     \<or> (\<exists>p3. snd (put_plan d uid pid body now) = save_plan d p3 \<and> currentWeek p3 = currentWeek p
           \<and> (numberOfWeeks p3 = numberOfWeeks p \<or> valid_numberOfWeeks (numberOfWeeks p3)))"
    by (auto simp: put_plan_def Let_def split: option.splits)
  then show ?thesis
  proof
    assume "snd (put_plan d uid pid body now) = d"
    with inv show ?thesis by simp
  next
    assume "\<exists>p3. snd (put_plan d uid pid body now) = save_plan d p3 \<and> currentWeek p3 = currentWeek p
           \<and> (numberOfWeeks p3 = numberOfWeeks p \<or> valid_numberOfWeeks (numberOfWeeks p3))"
    then obtain p3 where s: "snd (put_plan d uid pid body now) = save_plan d p3"
      and c: "currentWeek p3 = currentWeek p"
      and n: "numberOfWeeks p3 = numberOfWeeks p \<or> valid_numberOfWeeks (numberOfWeeks p3)" by blast
    from pi c n have "plan_inv p3" by (auto simp: plan_inv_def)
    with inv show ?thesis unfolding s by (rule save_plan_inv)
  qed
qed

lemma delete_plan_inv:
  assumes inv: "\<forall>q\<in>set (plans d). plan_inv q"
  shows "\<forall>q\<in>set (plans (snd (delete_plan d uid pid))). plan_inv q"
proof (cases "find (\<lambda>p. plan_id p = pid \<and> userId p = uid) (plans d)")
  case None
  then have "snd (delete_plan d uid pid) = d" by (simp add: delete_plan_def)
  with inv show ?thesis by simp
next
  case (Some p)
  then have "plans (snd (delete_plan d uid pid)) = remove1 p (plans d)" by (simp add: delete_plan_def)
  moreover have "set (remove1 p (plans d)) \<subseteq> set (plans d)" by (rule set_remove1_subset)
  ultimately show ?thesis using inv by auto
qed

lemma steps_post_plans: "plans (snd (steps_post d uid body now tz)) = plans d"
  by (simp add: steps_post_def save_steps_def Let_def split: option.splits prod.splits)

lemma handle_inv:
  assumes inv: "\<forall>q\<in>set (plans d). plan_inv q"
  shows "\<forall>q\<in>set (plans (handle d r)). plan_inv q"
proof (cases r)
  case (Pair now rq)
  show ?thesis
  proof (cases rq)
    case (PostPlan uid body) with inv Pair show ?thesis by (simp add: post_plan_inv)
  next
    case (GetPlan uid) with inv Pair show ?thesis by (simp add: get_plan_keeps_plans)
  next
    case (PutPause uid) with inv Pair show ?thesis by (simp add: put_pause_inv)
  next
    case (PutResume uid) with inv Pair show ?thesis by (simp add: put_resume_inv)
  next
    case (PutPlan uid pid body) with inv Pair show ?thesis by (simp add: put_plan_inv)
  next
    case (DeletePlan uid pid) with inv Pair show ?thesis by (simp add: delete_plan_inv)
  next
    case (PostSteps uid body tz) with inv Pair show ?thesis by (simp add: steps_post_plans)
  qed
qed

lemma foldl_handle_inv:
  "\<forall>q\<in>set (plans d). plan_inv q \<Longrightarrow> \<forall>q\<in>set (plans (foldl handle d reqs)). plan_inv q"
proof (induction reqs arbitrary: d)
  case Nil then show ?case by simp
next
  case (Cons r reqs)
  from Cons.prems have "\<forall>q\<in>set (plans (handle d r)). plan_inv q" by (rule handle_inv)
  then have "\<forall>q\<in>set (plans (foldl handle (handle d r) reqs)). plan_inv q" by (rule Cons.IH)
  then show ?case by simp
qed

lemma run_inv: "p \<in> set (plans (run reqs)) \<Longrightarrow> plan_inv p"
proof -
  have "\<forall>q\<in>set (plans empty_db). plan_inv q" by (simp add: empty_db_def)
  then have "\<forall>q\<in>set (plans (foldl handle empty_db reqs)). plan_inv q" by (rule foldl_handle_inv)
  then show "p \<in> set (plans (run reqs)) \<Longrightarrow> plan_inv p" by (simp add: run_def)
qed

lemma plan_inv_week: "plan_inv p \<Longrightarrow> 1 \<le> calculateCurrentWeek p now \<and> calculateCurrentWeek p now \<le> numberOfWeeks p"
  by (simp add: plan_inv_def valid_numberOfWeeks_def calculateCurrentWeek_def Let_def)

lemma run_pause: "run reqs_pause = \<lparr>plans = [plan_stored_paused], stepsEntries = [], nextId = 1\<rparr>"
  by (simp add: reqs_pause_def plan_stored_paused_def run_def empty_db_def body4_def new_plan_def route_defs default_dietPlan_def
      calculateCurrentWeek_def Let_def)

lemma find_save_plan:
  assumes "find (\<lambda>q. plan_id q = pid \<and> userId q = uid) (plans d) = Some p"
    and "plan_id p' = plan_id p" and "userId p' = userId p"
  shows "find (\<lambda>q. plan_id q = pid \<and> userId q = uid) (plans (save_plan d p')) = Some p'"
proof -
  have "find (\<lambda>q. plan_id q = pid \<and> userId q = uid) xs = Some p \<Longrightarrow>
        find (\<lambda>q. plan_id q = pid \<and> userId q = uid)
          (map (\<lambda>q. if plan_id q = plan_id p' then p' else q) xs) = Some p'" for xs
  proof (induction xs)
    case Nil then show ?case by simp
  next
    case (Cons x xs)
    from Cons.prems have pp: "plan_id p = pid \<and> userId p = uid" by (rule find_SomeD [THEN conjunct2])
    show ?case
    proof (cases "plan_id x = pid \<and> userId x = uid")
      case True
      with Cons.prems have "x = p" by simp
      with True assms(2,3) show ?thesis by simp
    next
      case False
      with Cons.prems have "find (\<lambda>q. plan_id q = pid \<and> userId q = uid) xs = Some p" by simp
      then have ih: "find (\<lambda>q. plan_id q = pid \<and> userId q = uid)
          (map (\<lambda>q. if plan_id q = plan_id p' then p' else q) xs) = Some p'" by (rule Cons.IH)
      from False pp assms(2,3) ih show ?thesis by auto
    qed
  qed
  with assms(1) show ?thesis by (simp add: save_plan_def)
qed

lemma put_plan_over_52:
  assumes f: "find (\<lambda>q. plan_id q = pid \<and> userId q = uid) (plans (run reqs)) = Some p"
    and n: "ub_numberOfWeeks body = Some n" and n52: "52 < n"
  shows "put_plan (run reqs) uid pid body now = (Next ValidationError, run reqs)"
proof -
  from f have "p \<in> set (plans (run reqs))" by (rule find_SomeD [THEN conjunct1])
  then have inv: "plan_inv p" by (rule run_inv)
  then have w: "calculateCurrentWeek p now \<le> numberOfWeeks p"
    by (rule plan_inv_week [THEN conjunct2])
  from inv have "numberOfWeeks p \<le> 52" by (simp add: plan_inv_def valid_numberOfWeeks_def)
  with w n52 have le: "calculateCurrentWeek p now \<le> n" and nz: "n \<noteq> 0"
    and nv: "\<not> valid_numberOfWeeks n"
    by (simp_all add: valid_numberOfWeeks_def)
  then show ?thesis
    unfolding put_plan_def f n
    by (cases "ub_dietPlan body"; cases "ub_goals body")
       (simp_all add: Let_def calc_dietPlan_upd calc_goals_upd)
qed

lemma or_else_zero: "or_else week b = (case (if week = Some 0 then None else week) of Some w \<Rightarrow> w | None \<Rightarrow> b)"
  by (simp add: or_else_def split: option.splits)

lemma put_resume_not_found:
  "find (\<lambda>p. userId p = uid \<and> status p = Paused) (plans d) = None \<Longrightarrow> put_resume d uid now = (Fail 404, d)"
  by (simp add: put_resume_def)

lemma put_resume_found:
  "find (\<lambda>p. userId p = uid \<and> status p = Paused) (plans d) = Some p \<Longrightarrow> pausedAt p = Some t \<Longrightarrow>
   put_resume d uid now =
     (let p3 = p\<lparr>pausedDays := pausedDays p + (now - t) div 86400000, status := Active, pausedAt := None\<rparr>
      in (Json 200 (p3\<lparr>currentWeek := calculateCurrentWeek p3 now\<rparr>), save_plan d p3))"
  by (simp add: put_resume_def Let_def)

lemma resume_same_day: "t \<le> now \<Longrightarrow> now div 86400000 = t div 86400000 \<Longrightarrow> (now - t) div 86400000 = (0::int)"
proof -
  assume le: "t \<le> now" and eq: "now div 86400000 = t div 86400000"
  have "now = now div 86400000 * 86400000 + now mod 86400000" by simp
  moreover have "t = t div 86400000 * 86400000 + t mod 86400000" by simp
  ultimately have "now - t = now mod 86400000 - t mod 86400000" using eq by linarith
  moreover have "now mod 86400000 < 86400000" "0 \<le> t mod 86400000" by simp_all
  ultimately have "now - t < 86400000" by linarith
  with le show ?thesis by simp
qed

lemma resume_whole_days_week:
  "calculateCurrentWeek (p\<lparr>pausedDays := pausedDays p + D, status := Active, pausedAt := None\<rparr>) (t + D * 86400000)
   = calculateCurrentWeek (p\<lparr>status := Active\<rparr>) t"
  by (simp add: calculateCurrentWeek_def Let_def algebra_simps)

lemma map_replace_same:
  assumes "distinct (map steps_id xs)" and "e \<in> set xs"
    and "f e' = f e"
  shows "map f (map (\<lambda>x. if steps_id x = steps_id e then e' else x) xs) = map f xs"
proof -
  have "f (if steps_id x = steps_id e then e' else x) = f x" if "x \<in> set xs" for x
  proof (cases "steps_id x = steps_id e")
    case True
    from assms(1) have "inj_on steps_id (set xs)" by (simp add: distinct_map)
    then have "x = e" using True that assms(2) by (rule inj_onD)
    with True assms(3) show ?thesis by simp
  next
    case False then show ?thesis by simp
  qed
  then show ?thesis by simp
qed

lemma find_replace_same:
  assumes "distinct (map steps_id xs)" and "e \<in> set xs" and "steps_id e' = steps_id e"
  shows "find (\<lambda>x. steps_id x = steps_id e) (map (\<lambda>x. if steps_id x = steps_id e then e' else x) xs) = Some e'"
  using assms(2)
proof (induction xs)
  case Nil then show ?case by simp
next
  case (Cons x xs)
  show ?case
  proof (cases "steps_id x = steps_id e")
    case True with assms(3) show ?thesis by simp
  next
    case False
    with Cons.prems have "e \<in> set xs" by auto
    then have "find (\<lambda>x. steps_id x = steps_id e) (map (\<lambda>x. if steps_id x = steps_id e then e' else x) xs) = Some e'"
      by (rule Cons.IH)
    with False show ?thesis by simp
  qed
qed

section \<open>The claims\<close>

text \<open>
  C1. The claim: an active plan whose unclamped week exceeds \<open>numberOfWeeks\<close> is detected
  as completed on read. The code compares the clamped week: for the plan of two weeks
  without pauses, read 20 days after its start, the raw week is 3 and
  \<open>calculateCurrentWeek\<close> is 2, so \<open>isCompleted\<close> is false and \<open>GET /api/plan\<close> answers with
  week 2 and leaves the plan active in the database.
\<close>

theorem isCompleted_false_on_overrun:
  "(let p = new_plan 0 7 (jan2024 1) 2; now = jan2024 21;
        d = \<lparr>plans = [p], stepsEntries = [], nextId = 1\<rparr>
    in now - startDate p = 20 * 86400000 \<and> elapsedDays p now div 7 + 1 = 3
       \<and> calculateCurrentWeek p now = 2 \<and> \<not> isCompleted p now
       \<and> get_plan d 7 now = (Json 200 (p\<lparr>currentWeek := 2\<rparr>), d) \<and> status p = Active)"
  by (simp add: new_plan_def jan2024_def elapsedDays_def calculateCurrentWeek_def
      isCompleted_def get_plan_def activeOrPaused_def Let_def)

text \<open>
  C2. \<open>calculateCurrentWeek\<close> is a function of the stored plan and of the current time
  only, and on a plan whose \<open>numberOfWeeks\<close> is at least 1 (the schema's minimum) it is the
  specification's \<open>computeCurrentWeek\<close>: the stored \<open>currentWeek\<close> when paused, the clamped
  \<open>floor(floor(elapsedMs / day) / 7) + 1\<close> otherwise. In the scenario (start 2024-01-01,
  4 weeks, paused on 2024-01-10, resumed on 2024-01-15) the stored \<open>pausedDays\<close> is 5 and
  on 2024-01-22 the elapsed days are 16 and the week is 3.
\<close>

theorem calculateCurrentWeek_computeCurrentWeek:
  "(1 \<le> numberOfWeeks p \<longrightarrow> calculateCurrentWeek p now = computeCurrentWeek p now) \<and>
   (let d = run [(jan2024 1, PostPlan 7 body4), (jan2024 10, PutPause 7),
                 (jan2024 15, PutResume 7)]
    in map (\<lambda>p. (pausedDays p, elapsedDays p (jan2024 22), calculateCurrentWeek p (jan2024 22)))
         (plans d) = [(5, 16, 3)])"
proof
  show "1 \<le> numberOfWeeks p \<longrightarrow> calculateCurrentWeek p now = computeCurrentWeek p now"
    by (simp add: calculateCurrentWeek_def computeCurrentWeek_def elapsedDays_def clamp_def
        Let_def mult.commute)
next
  show "let d = run [(jan2024 1, PostPlan 7 body4), (jan2024 10, PutPause 7),
                     (jan2024 15, PutResume 7)]
    in map (\<lambda>p. (pausedDays p, elapsedDays p (jan2024 22), calculateCurrentWeek p (jan2024 22)))
         (plans d) = [(5, 16, 3)]"
    unfolding run_pause_resume
    by (simp add: new_plan_def calculateCurrentWeek_def elapsedDays_def jan2024_def Let_def)
qed

theorem calculateCurrentWeek_computeCurrentWeek_witness:
  "1 \<le> numberOfWeeks plan_active
   \<and> calculateCurrentWeek plan_active (jan2024 8) = 2
   \<and> computeCurrentWeek plan_active (jan2024 8) = 2"
  using calculateCurrentWeek_computeCurrentWeek [of plan_active "jan2024 8"]
  by (simp add: plan_active_def new_plan_def computeCurrentWeek_def elapsedDays_def clamp_def
      jan2024_def)

text \<open>
  C4. For a fixed stored plan, \<open>calculateCurrentWeek\<close> does not decrease with the time of
  the call while the status is active, and does not depend on it while the status is
  paused.
\<close>

theorem calculateCurrentWeek_monotone:
  "(status p = Active \<longrightarrow> t1 \<le> t2 \<longrightarrow> calculateCurrentWeek p t1 \<le> calculateCurrentWeek p t2)
   \<and> (status p = Paused \<longrightarrow> calculateCurrentWeek p t1 = calculateCurrentWeek p t2)"
proof (intro conjI impI)
  assume a: "status p = Active" and le: "t1 \<le> t2"
  let ?dd = "\<lambda>t. (t - startDate p - (pausedDays p * 24 * 60 * 60 * 1000))
                  div (1000 * 60 * 60 * 24)"
  have eq: "calculateCurrentWeek p t = min (max (?dd t div 7 + 1) 1) (numberOfWeeks p)" for t
    unfolding calculateCurrentWeek_def Let_def using a by simp
  from le have "t1 - startDate p - (pausedDays p * 24 * 60 * 60 * 1000)
      \<le> t2 - startDate p - (pausedDays p * 24 * 60 * 60 * 1000)" by simp
  then have "?dd t1 \<le> ?dd t2" by (rule zdiv_mono1) simp
  then have "?dd t1 div 7 \<le> ?dd t2 div 7" by (rule zdiv_mono1) simp
  then have "?dd t1 div 7 + 1 \<le> ?dd t2 div 7 + 1" by (rule add_right_mono)
  then have "max (?dd t1 div 7 + 1) 1 \<le> max (?dd t2 div 7 + 1) 1"
    by (rule max.mono) (rule order_refl)
  then have "min (max (?dd t1 div 7 + 1) 1) (numberOfWeeks p)
      \<le> min (max (?dd t2 div 7 + 1) 1) (numberOfWeeks p)"
    by (rule min.mono) (rule order_refl)
  then show "calculateCurrentWeek p t1 \<le> calculateCurrentWeek p t2"
    unfolding eq .
next
  assume "status p = Paused"
  then show "calculateCurrentWeek p t1 = calculateCurrentWeek p t2"
    by (simp add: calculateCurrentWeek_def)
qed

theorem calculateCurrentWeek_monotone_witness:
  "status plan_active = Active \<and> jan2024 3 \<le> jan2024 17
   \<and> calculateCurrentWeek plan_active (jan2024 3) = 1
   \<and> calculateCurrentWeek plan_active (jan2024 17) = 3
   \<and> calculateCurrentWeek plan_active (jan2024 3) \<le> calculateCurrentWeek plan_active (jan2024 17)
   \<and> status plan_paused = Paused
   \<and> calculateCurrentWeek plan_paused (jan2024 3) = calculateCurrentWeek plan_paused (jan2024 17)"
proof -
  have a: "status plan_active = Active" by (simp add: plan_active_def new_plan_def)
  have b: "jan2024 3 \<le> jan2024 17" by (simp add: jan2024_def)
  have c: "status plan_paused = Paused" by (simp add: plan_paused_def new_plan_def)
  have d: "calculateCurrentWeek plan_active (jan2024 3) = 1"
    by (simp add: plan_active_def new_plan_def calculateCurrentWeek_def jan2024_def Let_def)
  have e: "calculateCurrentWeek plan_active (jan2024 17) = 3"
    by (simp add: plan_active_def new_plan_def calculateCurrentWeek_def jan2024_def Let_def)
  from calculateCurrentWeek_monotone [of plan_active "jan2024 3" "jan2024 17"] a b
  have f: "calculateCurrentWeek plan_active (jan2024 3)
      \<le> calculateCurrentWeek plan_active (jan2024 17)" by blast
  from calculateCurrentWeek_monotone [of plan_paused "jan2024 3" "jan2024 17"] c
  have g: "calculateCurrentWeek plan_paused (jan2024 3)
      = calculateCurrentWeek plan_paused (jan2024 17)" by blast
  from a b c d e f g show ?thesis by blast
qed

text \<open>
  C5. The claim: creating a plan while the caller has an active or paused plan fails with
  status 409. The handler answers 400: after one creation, a second creation by the same
  user is answered with \<open>Fail 400\<close> and leaves the database as it was.
\<close>

theorem post_plan_conflict_400_counterexample: "(let d = run [(jan2024 1, PostPlan 7 body4)]
   in post_plan d 7 body4 = (Fail 400, d) \<and> fst (post_plan d 7 body4) \<noteq> Fail 409)"
  unfolding run_one
  by (simp add: post_plan_def activeOrPaused_def new_plan_def)

text \<open>
  C5, amended. Creating a plan while the caller has an active or paused plan is answered
  with status 400 and persists nothing. Creating one while all the caller's plans are
  completed, with a valid start date, a \<open>numberOfWeeks\<close> from 1 to 52 and a diet plan that
  is absent or valid, is answered with 201 and appends one plan with status active,
  \<open>pausedDays\<close> 0 and \<open>currentWeek\<close> 1.
\<close>

theorem post_plan_conflict_or_created: 
  "((\<exists>p\<in>set (plans d). userId p = uid \<and> (status p = Active \<or> status p = Paused))
      \<longrightarrow> post_plan d uid body = (Fail 400, d))
   \<and> ((\<forall>p\<in>set (plans d). userId p = uid \<longrightarrow> status p = Completed)
        \<and> cb_startDate body = Some s \<and> cb_numberOfWeeks body = Some n \<and> 1 \<le> n \<and> n \<le> 52
        \<and> (case cb_dietPlan body of Some dp \<Rightarrow> valid_dietPlan dp | None \<Rightarrow> True)
      \<longrightarrow> (let p = \<lparr>plan_id = nextId d, userId = uid, startDate = s, numberOfWeeks = n,
                    currentWeek = 1, status = Active, pausedAt = None, pausedDays = 0,
                    dietPlan = (case cb_dietPlan body of Some dp \<Rightarrow> dp | None \<Rightarrow> default_dietPlan),
                    goals = goals_defaults
                              (case cb_goals body of Some g \<Rightarrow> g | None \<Rightarrow> empty_goals)\<rparr>
           in post_plan d uid body
                = (Json 201 p, d\<lparr>plans := plans d @ [p], nextId := nextId d + 1\<rparr>)))"
proof (intro conjI impI)
  assume "\<exists>p\<in>set (plans d). userId p = uid \<and> (status p = Active \<or> status p = Paused)"
  then have "\<exists>p\<in>set (plans d). activeOrPaused uid p" by (simp add: activeOrPaused_def)
  then have "\<exists>y. find (activeOrPaused uid) (plans d) = Some y" by (rule find_Some_ex)
  then obtain y where "find (activeOrPaused uid) (plans d) = Some y" ..
  then show "post_plan d uid body = (Fail 400, d)" by (simp add: post_plan_def)
next
  assume h: "(\<forall>p\<in>set (plans d). userId p = uid \<longrightarrow> status p = Completed)
        \<and> cb_startDate body = Some s \<and> cb_numberOfWeeks body = Some n \<and> 1 \<le> n \<and> n \<le> 52
        \<and> (case cb_dietPlan body of Some dp \<Rightarrow> valid_dietPlan dp | None \<Rightarrow> True)"
  then have "\<forall>p\<in>set (plans d). userId p = uid \<longrightarrow> status p = Completed" ..
  then have "\<forall>p\<in>set (plans d). \<not> activeOrPaused uid p" by (auto simp: activeOrPaused_def)
  then have f: "find (activeOrPaused uid) (plans d) = None" by (simp add: find_None_iff)
  have v: "valid_dietPlan default_dietPlan" by (simp add: valid_dietPlan_def default_dietPlan_def)
  from h have h': "cb_startDate body = Some s \<and> cb_numberOfWeeks body = Some n \<and> 1 \<le> n \<and> n \<le> 52
        \<and> (case cb_dietPlan body of Some dp \<Rightarrow> valid_dietPlan dp | None \<Rightarrow> True)" ..
  from h' have sd: "cb_startDate body = Some s" and n: "cb_numberOfWeeks body = Some n"
    and n1: "valid_numberOfWeeks n" by (simp_all add: valid_numberOfWeeks_def)
  from h' v have dp: "valid_dietPlan (case cb_dietPlan body of Some dp \<Rightarrow> dp | None \<Rightarrow> default_dietPlan)"
    by (cases "cb_dietPlan body") simp_all
  show "(let p = \<lparr>plan_id = nextId d, userId = uid, startDate = s, numberOfWeeks = n,
                    currentWeek = 1, status = Active, pausedAt = None, pausedDays = 0,
                    dietPlan = (case cb_dietPlan body of Some dp \<Rightarrow> dp | None \<Rightarrow> default_dietPlan),
                    goals = goals_defaults
                              (case cb_goals body of Some g \<Rightarrow> g | None \<Rightarrow> empty_goals)\<rparr>
           in post_plan d uid body
                = (Json 201 p, d\<lparr>plans := plans d @ [p], nextId := nextId d + 1\<rparr>))"
    by (simp add: post_plan_def Plan_create_def f sd n n1 dp Let_def)
qed

theorem post_plan_conflict_or_created_witness:
  "map (\<lambda>p. (userId p, status p)) (plans (run reqs_one)) = [(7, Active)]
   \<and> post_plan (run reqs_one) 7 body4 = (Fail 400, run reqs_one)
   \<and> map (\<lambda>p. (userId p, status p)) (plans db_done) = [(7, Completed)]
   \<and> cb_startDate body4 = Some (jan2024 1) \<and> cb_numberOfWeeks body4 = Some 4
   \<and> (1::int) \<le> 4 \<and> (4::int) \<le> 52
   \<and> (case cb_dietPlan body4 of Some dp \<Rightarrow> valid_dietPlan dp | None \<Rightarrow> True)
   \<and> post_plan db_done 7 body4
      = (Json 201 (new_plan 1 7 (jan2024 1) 4),
         db_done\<lparr>plans := plans db_done @ [new_plan 1 7 (jan2024 1) 4], nextId := 2\<rparr>)"
proof -
  have a': "map (\<lambda>p. (userId p, status p)) (plans (run reqs_one)) = [(7, Active)]"
    unfolding reqs_one_def run_one by (simp add: new_plan_def)
  have a: "\<exists>p\<in>set (plans (run reqs_one)). userId p = 7 \<and> (status p = Active \<or> status p = Paused)"
    unfolding reqs_one_def run_one by (simp add: new_plan_def)
  have b': "map (\<lambda>p. (userId p, status p)) (plans db_done) = [(7, Completed)]"
    by (simp add: db_done_def plan_done_def new_plan_def)
  have b: "(\<forall>p\<in>set (plans db_done). userId p = 7 \<longrightarrow> status p = Completed)
   \<and> cb_startDate body4 = Some (jan2024 1) \<and> cb_numberOfWeeks body4 = Some 4 \<and> (1::int) \<le> 4 \<and> (4::int) \<le> 52
   \<and> (case cb_dietPlan body4 of Some dp \<Rightarrow> valid_dietPlan dp | None \<Rightarrow> True)"
    by (simp add: db_done_def plan_done_def new_plan_def body4_def)
  note c = post_plan_conflict_or_created [of "run reqs_one" 7 body4, THEN conjunct1, THEN mp, OF a]
  note e = post_plan_conflict_or_created [of db_done 7 body4 "jan2024 1" 4, THEN conjunct2, THEN mp, OF b]
  have e': "post_plan db_done 7 body4
      = (Json 201 (new_plan 1 7 (jan2024 1) 4),
         db_done\<lparr>plans := plans db_done @ [new_plan 1 7 (jan2024 1) 4], nextId := 2\<rparr>)"
    using e by (simp add: Let_def new_plan_def body4_def db_done_def)
  show ?thesis
    by (intro conjI a' c b' e' b [THEN conjunct2, THEN conjunct1]
       b [THEN conjunct2, THEN conjunct2, THEN conjunct1]
       b [THEN conjunct2, THEN conjunct2, THEN conjunct2, THEN conjunct1]
       b [THEN conjunct2, THEN conjunct2, THEN conjunct2, THEN conjunct2, THEN conjunct1]
       b [THEN conjunct2, THEN conjunct2, THEN conjunct2, THEN conjunct2, THEN conjunct2])
qed




text \<open>
  C9. The claim: \<open>calculateCurrentWeek\<close> right after a creation with a valid input is 1.
  A plan of 4 weeks created on 2024-01-15 with the start date 2024-01-01 is accepted (201)
  and its week at that moment is 3.
\<close>

theorem created_plan_week_counterexample: "(case post_plan empty_db 7 body4 of
     (Json c p, d') \<Rightarrow> c = 201 \<and> calculateCurrentWeek p (jan2024 15) = 3 \<and> calculateCurrentWeek p (jan2024 15) \<noteq> 1
   | _ \<Rightarrow> False)"
  by (simp add: empty_db_def body4_def route_defs default_dietPlan_def calculateCurrentWeek_def jan2024_def Let_def)

text \<open>
  C9, amended. For a valid creation input with \<open>numberOfWeeks\<close> from 1 to 52 whose start
  date is less than 7 days before the time of the call (or in the future), the creation
  succeeds and \<open>calculateCurrentWeek\<close> of the created plan at that time is 1.
\<close>

theorem created_plan_week_one:
  assumes "find (activeOrPaused uid) (plans d) = None"
    and "cb_startDate body = Some s" and "cb_numberOfWeeks body = Some n" and "1 \<le> n" and "n \<le> 52"
    and "case cb_dietPlan body of Some dp \<Rightarrow> valid_dietPlan dp | None \<Rightarrow> True"
    and "now - s < 7 * 86400000"
  shows "case post_plan d uid body of
           (Json c p, d') \<Rightarrow> c = 201 \<and> calculateCurrentWeek p now = 1
         | _ \<Rightarrow> False"
proof -
  have v: "valid_dietPlan default_dietPlan" by (simp add: valid_dietPlan_def default_dietPlan_def)
  from assms(4,5) have n1: "valid_numberOfWeeks n" by (simp add: valid_numberOfWeeks_def)
  from assms(6) v have dp: "valid_dietPlan (case cb_dietPlan body of Some dp \<Rightarrow> dp | None \<Rightarrow> default_dietPlan)"
    by (cases "cb_dietPlan body") simp_all
  from assms(7) have "now - s \<le> 604799999" by simp
  then have "(now - s) div 86400000 \<le> 604799999 div 86400000" by (rule zdiv_mono1) simp
  then have "(now - s) div 86400000 \<le> 6" by simp
  then have "(now - s) div 86400000 div 7 \<le> 6 div 7" by (rule zdiv_mono1) simp
  then have "(now - s) div 86400000 div 7 < 1" by simp
  then have w: "min (max ((now - s) div 86400000 div 7 + 1) 1) n = 1" using assms(4) by simp
  show ?thesis
    by (simp add: post_plan_def Plan_create_def assms(1,2,3) n1 dp Let_def calculateCurrentWeek_def w)
qed

theorem created_plan_week_one_witness: "find (activeOrPaused 7) (plans empty_db) = None
   \<and> cb_startDate body4 = Some (jan2024 1) \<and> cb_numberOfWeeks body4 = Some 4 \<and> (1::int) \<le> 4 \<and> (4::int) \<le> 52
   \<and> (case cb_dietPlan body4 of Some dp \<Rightarrow> valid_dietPlan dp | None \<Rightarrow> True)
   \<and> jan2024 3 - jan2024 1 < 7 * 86400000
   \<and> (case post_plan empty_db 7 body4 of
           (Json c p, d') \<Rightarrow> c = 201 \<and> calculateCurrentWeek p (jan2024 3) = 1
         | _ \<Rightarrow> False)"
proof -
  have a: "find (activeOrPaused 7) (plans empty_db) = None" by (simp add: empty_db_def)
  have b: "cb_startDate body4 = Some (jan2024 1)" by (simp add: body4_def)
  have c: "cb_numberOfWeeks body4 = Some 4" by (simp add: body4_def)
  have e: "case cb_dietPlan body4 of Some dp \<Rightarrow> valid_dietPlan dp | None \<Rightarrow> True" by (simp add: body4_def)
  have f: "jan2024 3 - jan2024 1 < 7 * 86400000" by (simp add: jan2024_def)
  have g: "(1::int) \<le> 4" by simp
  have h: "(4::int) \<le> 52" by simp
  note r = created_plan_week_one [OF a b c g h e f]
  show ?thesis by (intro conjI a b c g h e f r)
qed

text \<open>
  C8. The claim: an update stores the new \<open>numberOfWeeks\<close> if and only if it is at least the
  currently computed week. For the stored plan in week 1, an update to 60 weeks passes
  the guard of the handler (60 is at least 1), fails the schema validator \<open>max 52\<close> in
  \<open>save()\<close>, and leaves the database as it was.
\<close>

theorem put_plan_over_52_counterexample: "(let d = run reqs_one
   in find (\<lambda>q. plan_id q = 0 \<and> userId q = 7) (plans d) = Some plan_active
      \<and> calculateCurrentWeek plan_active (jan2024 2) \<le> 60
      \<and> put_plan d 7 0 body60 (jan2024 2) = (Next ValidationError, d))"
  unfolding reqs_one_def run_one Let_def plan_active_def
  by (simp add: new_plan_def body60_def put_plan_def calculateCurrentWeek_def jan2024_def valid_numberOfWeeks_def Let_def)

text \<open>
  C8, amended. For a plan stored after any history of requests and an update request on
  it that supplies a \<open>numberOfWeeks\<close> of at most 52 (and a diet plan that is absent or
  valid), the request succeeds with 200 and the stored \<open>numberOfWeeks\<close> is the new value
  if it is at least the currently computed week, and the old value otherwise; the plan
  fetched again by the same query is the updated one.
\<close>

theorem put_plan_numberOfWeeks:
  assumes f: "find (\<lambda>q. plan_id q = pid \<and> userId q = uid) (plans (run reqs)) = Some p"
    and n: "ub_numberOfWeeks body = Some n" and n52: "n \<le> 52"
    and dp: "case ub_dietPlan body of Some dp \<Rightarrow> valid_dietPlan dp | None \<Rightarrow> True"
  shows "(let p1 = (case ub_dietPlan body of Some dp \<Rightarrow> p\<lparr>dietPlan := dp\<rparr> | None \<Rightarrow> p);
              p2 = (case ub_goals body of Some g \<Rightarrow> p1\<lparr>goals := merge_goals (goals p1) g\<rparr> | None \<Rightarrow> p1);
              p3 = p2\<lparr>numberOfWeeks := (if calculateCurrentWeek p now \<le> n then n else numberOfWeeks p)\<rparr>
          in put_plan (run reqs) uid pid body now
               = (Json 200 (p3\<lparr>currentWeek := calculateCurrentWeek p3 now\<rparr>), save_plan (run reqs) p3)
             \<and> find (\<lambda>q. plan_id q = pid \<and> userId q = uid) (plans (save_plan (run reqs) p3)) = Some p3)"
proof -
  define p1 where "p1 = (case ub_dietPlan body of Some dp \<Rightarrow> p\<lparr>dietPlan := dp\<rparr> | None \<Rightarrow> p)"
  define p2 where "p2 = (case ub_goals body of Some g \<Rightarrow> p1\<lparr>goals := merge_goals (goals p1) g\<rparr> | None \<Rightarrow> p1)"
  define p3 where "p3 = p2\<lparr>numberOfWeeks := (if calculateCurrentWeek p now \<le> n then n else numberOfWeeks p)\<rparr>"
  have p1: "status p1 = status p \<and> currentWeek p1 = currentWeek p \<and> startDate p1 = startDate p
      \<and> pausedDays p1 = pausedDays p \<and> numberOfWeeks p1 = numberOfWeeks p
      \<and> plan_id p1 = plan_id p \<and> userId p1 = userId p"
    by (cases "ub_dietPlan body") (simp_all add: p1_def)
  have p2: "status p2 = status p \<and> currentWeek p2 = currentWeek p \<and> startDate p2 = startDate p
      \<and> pausedDays p2 = pausedDays p \<and> numberOfWeeks p2 = numberOfWeeks p
      \<and> plan_id p2 = plan_id p \<and> userId p2 = userId p"
    using p1 by (cases "ub_goals body") (simp_all add: p2_def)
  from p2 have c2: "calculateCurrentWeek p2 now = calculateCurrentWeek p now"
    by (intro calc_frame) simp_all
  from f have "p \<in> set (plans (run reqs))" by (rule find_SomeD [THEN conjunct1])
  then have "plan_inv p" by (rule run_inv)
  then have w1: "1 \<le> calculateCurrentWeek p now" by (rule plan_inv_week [THEN conjunct1])
  have ids: "plan_id p3 = plan_id p" "userId p3 = userId p" using p2 by (simp_all add: p3_def)
  have stored: "find (\<lambda>q. plan_id q = pid \<and> userId q = uid) (plans (save_plan (run reqs) p3)) = Some p3"
    using f ids by (rule find_save_plan)
  have put: "put_plan (run reqs) uid pid body now
               = (Json 200 (p3\<lparr>currentWeek := calculateCurrentWeek p3 now\<rparr>), save_plan (run reqs) p3)"
  proof (cases "calculateCurrentWeek p now \<le> n")
    case True
    with w1 n52 have "n \<noteq> 0" "valid_numberOfWeeks n" by (simp_all add: valid_numberOfWeeks_def)
    with True dp show ?thesis
      unfolding put_plan_def f n p3_def p2_def p1_def
      by (cases "ub_dietPlan body"; cases "ub_goals body")
         (simp_all add: Let_def calc_dietPlan_upd calc_goals_upd)
  next
    case False
    with dp show ?thesis
      unfolding put_plan_def f n p3_def p2_def p1_def
      by (cases "ub_dietPlan body"; cases "ub_goals body")
         (simp_all add: Let_def calc_dietPlan_upd calc_goals_upd)
  qed
  from put stored show ?thesis
    unfolding Let_def p1_def [symmetric] p2_def [symmetric] p3_def [symmetric] by (rule conjI)
qed

theorem put_plan_numberOfWeeks_witness: 
  "find (\<lambda>q. plan_id q = 0 \<and> userId q = 7) (plans (run reqs_one)) = Some plan_active
   \<and> ub_numberOfWeeks body3 = Some 3 \<and> (3::int) \<le> 52
   \<and> (case ub_dietPlan body3 of Some dp \<Rightarrow> valid_dietPlan dp | None \<Rightarrow> True)
   \<and> calculateCurrentWeek plan_active (jan2024 9) = 2
   \<and> fst (put_plan (run reqs_one) 7 0 body3 (jan2024 9)) = Json 200 (plan_active\<lparr>numberOfWeeks := 3, currentWeek := 2\<rparr>)
   \<and> calculateCurrentWeek plan_active (jan2024 29) = 4
   \<and> fst (put_plan (run reqs_one) 7 0 body3 (jan2024 29)) = Json 200 (plan_active\<lparr>currentWeek := 4\<rparr>)"
proof -
  have a: "find (\<lambda>q. plan_id q = 0 \<and> userId q = 7) (plans (run reqs_one)) = Some plan_active"
    by (simp add: reqs_one_def run_one plan_active_def new_plan_def)
  have b: "ub_numberOfWeeks body3 = Some 3" by (simp add: body3_def)
  have c: "(3::int) \<le> 52" by simp
  have e: "case ub_dietPlan body3 of Some dp \<Rightarrow> valid_dietPlan dp | None \<Rightarrow> True" by (simp add: body3_def)
  have w9: "calculateCurrentWeek plan_active (jan2024 9) = 2"
    by (simp add: plan_active_def new_plan_def calculateCurrentWeek_def jan2024_def)
  have w29: "calculateCurrentWeek plan_active (jan2024 29) = 4"
    by (simp add: plan_active_def new_plan_def calculateCurrentWeek_def jan2024_def)
  have g: "fst (put_plan (run reqs_one) 7 0 body3 (jan2024 9)) = Json 200 (plan_active\<lparr>numberOfWeeks := 3, currentWeek := 2\<rparr>)"
    using put_plan_numberOfWeeks [OF a b c e, of "jan2024 9"] w9
    by (simp add: Let_def body3_def calculateCurrentWeek_def plan_active_def new_plan_def jan2024_def)
  have h: "fst (put_plan (run reqs_one) 7 0 body3 (jan2024 29)) = Json 200 (plan_active\<lparr>currentWeek := 4\<rparr>)"
    using put_plan_numberOfWeeks [OF a b c e, of "jan2024 29"] w29
    by (simp add: Let_def body3_def calculateCurrentWeek_def plan_active_def new_plan_def jan2024_def)
  show ?thesis by (intro conjI a b c e w9 g w29 h)
qed

text \<open>
  C7. The claim: a caller-supplied week always takes precedence over the computed one.
  With a plan in week 2, a request that supplies week 0 gets the computed week 2, where
  the specification's resolution returns 0.
\<close>

theorem week_zero_not_precedent_counterexample:
  "weight_post_week (run reqs_one) 7 (Some 0) (jan2024 9) = (2, Some 0)
   \<and> resolveWeekAndPlan (run reqs_one) 7 (Some 0) (jan2024 9) = (0, Some 0)"
  unfolding reqs_one_def run_one
  by (simp add: weight_post_week_def resolveWeekAndPlan_def or_else_def activeOrPaused_def new_plan_def
      calculateCurrentWeek_def jan2024_def Let_def)

text \<open>
  C7, amended. At the four creating handlers (weight, workout, steps, and meals once the
  meal type and the items are present and not empty) the week and the plan id are the
  specification's \<open>resolveWeekAndPlan\<close>: the computed week and the id of the user's active
  or paused plan, week 1 and no id without such a plan, and a caller-supplied week first,
  except that a supplied week of 0 counts as not supplied.
\<close>

theorem logging_week_resolution:
  "weight_post_week d uid week now = resolveWeekAndPlan d uid (if week = Some 0 then None else week) now
   \<and> workout_post_week d uid week now = resolveWeekAndPlan d uid (if week = Some 0 then None else week) now
   \<and> steps_post_week d uid week now = resolveWeekAndPlan d uid (if week = Some 0 then None else week) now
   \<and> (mealType \<noteq> None \<and> mealType \<noteq> Some [] \<and> its \<noteq> None \<and> its \<noteq> Some []
        \<longrightarrow> meals_post_week d uid mealType its week now
              = Inr (resolveWeekAndPlan d uid (if week = Some 0 then None else week) now))"
proof -
  have r: "(let plan = find (activeOrPaused uid) (plans d);
          entryWeek = or_else week (case plan of Some p \<Rightarrow> calculateCurrentWeek p now | None \<Rightarrow> 1)
      in (entryWeek, map_option plan_id plan))
     = resolveWeekAndPlan d uid (if week = Some 0 then None else week) now"
    by (cases "find (activeOrPaused uid) (plans d)")
       (simp_all add: resolveWeekAndPlan_def or_else_zero Let_def split: option.splits)
  have m: "mealType \<noteq> None \<and> mealType \<noteq> Some [] \<and> its \<noteq> None \<and> its \<noteq> Some []
        \<longrightarrow> meals_post_week d uid mealType its week now
              = Inr (resolveWeekAndPlan d uid (if week = Some 0 then None else week) now)"
    unfolding meals_post_week_def r [symmetric] by (simp add: Let_def)
  show ?thesis
    unfolding weight_post_week_def workout_post_week_def steps_post_week_def r
    using m by simp
qed

theorem logging_week_resolution_witness:
  "Some ''lunch'' \<noteq> None \<and> Some ''lunch'' \<noteq> Some [] \<and> Some [0::nat] \<noteq> None \<and> Some [0::nat] \<noteq> Some []
   \<and> meals_post_week (run reqs_one) 7 (Some ''lunch'') (Some [0::nat]) (Some 5) (jan2024 9) = Inr (5, Some 0)
   \<and> weight_post_week (run reqs_one) 7 None (jan2024 9) = (2, Some 0)
   \<and> workout_post_week empty_db 7 None (jan2024 9) = (1, None)"
proof -
  have g: "Some ''lunch'' \<noteq> None \<and> Some ''lunch'' \<noteq> Some [] \<and> Some [0::nat] \<noteq> None \<and> Some [0::nat] \<noteq> Some []"
    by simp
  have r1: "resolveWeekAndPlan (run reqs_one) 7 (if Some 5 = Some (0::int) then None else Some 5) (jan2024 9) = (5, Some 0)"
    unfolding reqs_one_def run_one
    by (simp add: resolveWeekAndPlan_def activeOrPaused_def new_plan_def)
  have r2: "resolveWeekAndPlan (run reqs_one) 7 (if None = Some (0::int) then None else None) (jan2024 9) = (2, Some 0)"
    unfolding reqs_one_def run_one
    by (simp add: resolveWeekAndPlan_def activeOrPaused_def new_plan_def calculateCurrentWeek_def jan2024_def)
  have r3: "resolveWeekAndPlan empty_db 7 (if None = Some (0::int) then None else None) (jan2024 9) = (1, None)"
    by (simp add: resolveWeekAndPlan_def empty_db_def)
  note m = logging_week_resolution [of "run reqs_one" 7 "Some 5" "jan2024 9" "Some ''lunch''" "Some [0::nat]",
      THEN conjunct2, THEN conjunct2, THEN conjunct2, THEN mp, OF g, unfolded r1]
  note w = logging_week_resolution [of "run reqs_one" 7 None "jan2024 9", THEN conjunct1, unfolded r2]
  note k = logging_week_resolution [of empty_db 7 None "jan2024 9", THEN conjunct2, THEN conjunct1, unfolded r3]
  show ?thesis
    by (intro conjI g [THEN conjunct1] g [THEN conjunct2, THEN conjunct1]
        g [THEN conjunct2, THEN conjunct2, THEN conjunct1] g [THEN conjunct2, THEN conjunct2, THEN conjunct2] m w k)
qed

text \<open>
  C6. The claim: after a pause of exactly D whole days, resume adds D to \<open>pausedDays\<close>,
  clears \<open>pausedAt\<close>, sets the status to active, and the week right after the resume is
  the frozen week of the pause. For the plan of 4 weeks from 2024-01-01, paused on
  2024-01-10 in week 2 and resumed on 2024-01-15: the week just before the pause is 2,
  the week the paused plan reports is 1 (the pause handler sets the status to paused
  before it reads \<open>calculateCurrentWeek()\<close>, so it stores the old \<open>currentWeek\<close> again),
  and after the resume \<open>pausedDays\<close> is 5, \<open>pausedAt\<close> is cleared, the status is active
  and the week is 2, which is not the frozen week.
\<close>

theorem resume_week_differs_from_frozen_week: 
  "(let d1 = run reqs_pause; d2 = snd (put_resume d1 7 (jan2024 15))
    in map (\<lambda>p. (status p, calculateCurrentWeek p (jan2024 10))) (plans (run reqs_one)) = [(Active, 2)]
     \<and> map (\<lambda>p. (status p, pausedAt p, calculateCurrentWeek p (jan2024 15))) (plans d1)
         = [(Paused, Some (jan2024 10), 1)]
     \<and> jan2024 15 - jan2024 10 = 5 * 86400000
     \<and> map (\<lambda>p. (status p, pausedAt p, pausedDays p, calculateCurrentWeek p (jan2024 15))) (plans d2)
         = [(Active, None, 5, 2)])"
  unfolding reqs_one_def run_one run_pause Let_def
  by (simp add: plan_stored_paused_def new_plan_def put_resume_def save_plan_def calculateCurrentWeek_def jan2024_def Let_def)

text \<open>
  C10. When a steps request arrives for a day on which the user has a stored entry (the
  ids of the stored entries being unique), the weeks, plan ids, dates, users and ids of
  all stored entries stay as they are, whatever week the request supplies and whatever
  the computed week is, and no entry is added; and when the request passes validation
  the existing entry gets the new count and goal, and the distance and calories burned
  that the request supplies, and is the answer of the handler.
\<close>

theorem steps_post_existing_entry_frame:
  assumes dist: "distinct (map steps_id (stepsEntries d))"
    and f: "find (\<lambda>e. steps_userId e = uid
                \<and> steps_date e = setHours0 tz (case sb_date body of Some t \<Rightarrow> t | None \<Rightarrow> now))
              (stepsEntries d) = Some e"
  shows "(let d' = snd (steps_post d uid body now tz)
          in map steps_week (stepsEntries d') = map steps_week (stepsEntries d)
           \<and> map steps_planId (stepsEntries d') = map steps_planId (stepsEntries d)
           \<and> map steps_date (stepsEntries d') = map steps_date (stepsEntries d)
           \<and> map steps_userId (stepsEntries d') = map steps_userId (stepsEntries d)
           \<and> map steps_id (stepsEntries d') = map steps_id (stepsEntries d)
           \<and> plans d' = plans d \<and> nextId d' = nextId d
           \<and> (sb_count body = Some c \<and> valid_count c \<and> valid_min0 (sb_distance body)
                \<and> valid_min0 (sb_caloriesBurned body) \<longrightarrow>
               (let e' = e\<lparr>steps_count := c,
                       steps_goal := or_else (sb_goal body)
                         (or_else (case find (activeOrPaused uid) (plans d) of
                                     Some p \<Rightarrow> dailyStepsGoal (goals p) | None \<Rightarrow> None) 10000),
                       steps_distance := (case sb_distance body of
                                            Some x \<Rightarrow> Some x | None \<Rightarrow> steps_distance e),
                       steps_caloriesBurned := (case sb_caloriesBurned body of
                                            Some x \<Rightarrow> Some x | None \<Rightarrow> steps_caloriesBurned e)\<rparr>
                in fst (steps_post d uid body now tz) = Json 201 e'
                 \<and> find (\<lambda>x. steps_id x = steps_id e) (stepsEntries d') = Some e')))"
proof -
  define g where "g = or_else (sb_goal body)
                         (or_else (case find (activeOrPaused uid) (plans d) of
                                     Some p \<Rightarrow> dailyStepsGoal (goals p) | None \<Rightarrow> None) 10000)"
  define e' where "e' = (\<lambda>c. e\<lparr>steps_count := c, steps_goal := g,
                       steps_distance := (case sb_distance body of
                                            Some x \<Rightarrow> Some x | None \<Rightarrow> steps_distance e),
                       steps_caloriesBurned := (case sb_caloriesBurned body of
                                            Some x \<Rightarrow> Some x | None \<Rightarrow> steps_caloriesBurned e)\<rparr>)"
  define ok where "ok = (\<lambda>c. valid_count c \<and> valid_min0 (sb_distance body) \<and> valid_min0 (sb_caloriesBurned body))"
  from f have mem: "e \<in> set (stepsEntries d)" by (rule find_SomeD [THEN conjunct1])
  have fr: "steps_week (e' c) = steps_week e" "steps_planId (e' c) = steps_planId e"
    "steps_date (e' c) = steps_date e" "steps_userId (e' c) = steps_userId e"
    "steps_id (e' c) = steps_id e" for c
    by (simp_all add: e'_def)
  have post: "steps_post d uid body now tz =
      (case sb_count body of
         None \<Rightarrow> (Next ValidationError, d)
       | Some c \<Rightarrow> if ok c then (Json 201 (e' c), save_steps d (e' c)) else (Next ValidationError, d))"
    unfolding steps_post_def Let_def f ok_def e'_def g_def
    by (cases "sb_distance body"; cases "sb_caloriesBurned body")
       (simp_all split: option.splits prod.splits)
  have cases: "snd (steps_post d uid body now tz) = d
      \<or> (\<exists>c. snd (steps_post d uid body now tz) = save_steps d (e' c))"
    unfolding post by (auto split: option.splits)
  have frame: "map steps_week (stepsEntries d') = map steps_week (stepsEntries d)
           \<and> map steps_planId (stepsEntries d') = map steps_planId (stepsEntries d)
           \<and> map steps_date (stepsEntries d') = map steps_date (stepsEntries d)
           \<and> map steps_userId (stepsEntries d') = map steps_userId (stepsEntries d)
           \<and> map steps_id (stepsEntries d') = map steps_id (stepsEntries d)
           \<and> plans d' = plans d \<and> nextId d' = nextId d"
    if "d' = d \<or> (\<exists>c. d' = save_steps d (e' c))" for d'
    using that
  proof
    assume "d' = d" then show ?thesis by simp
  next
    assume "\<exists>c. d' = save_steps d (e' c)"
    then obtain c where d': "d' = save_steps d (e' c)" ..
    have se: "stepsEntries (save_steps d (e' c))
        = map (\<lambda>x. if steps_id x = steps_id e then e' c else x) (stepsEntries d)"
      by (simp add: save_steps_def fr)
    have pl: "plans (save_steps d (e' c)) = plans d" "nextId (save_steps d (e' c)) = nextId d"
      by (simp_all add: save_steps_def)
    show ?thesis
      unfolding d' se pl
      by (intro conjI refl map_replace_same [OF dist mem] fr)
  qed
  have upd: "fst (steps_post d uid body now tz) = Json 201 (e' c)
       \<and> find (\<lambda>x. steps_id x = steps_id e) (stepsEntries (snd (steps_post d uid body now tz))) = Some (e' c)"
    if "sb_count body = Some c \<and> ok c" for c
  proof -
    from that have p: "steps_post d uid body now tz = (Json 201 (e' c), save_steps d (e' c))"
      unfolding post by simp
    have "find (\<lambda>x. steps_id x = steps_id e)
            (map (\<lambda>x. if steps_id x = steps_id e then e' c else x) (stepsEntries d)) = Some (e' c)"
      using dist mem fr(5) by (rule find_replace_same)
    then show ?thesis unfolding p by (simp add: save_steps_def fr)
  qed
  from frame [OF cases] upd [of c] show ?thesis
    unfolding Let_def g_def [symmetric] e'_def [symmetric] ok_def
    by (simp add: e'_def)
qed

theorem steps_post_existing_entry_frame_witness:
  "distinct (map steps_id (stepsEntries db_steps))
   \<and> find (\<lambda>e. steps_userId e = 7
                \<and> steps_date e = setHours0 0 (case sb_date steps_body5 of Some t \<Rightarrow> t | None \<Rightarrow> jan2024 9))
              (stepsEntries db_steps) = Some steps_old
   \<and> sb_count steps_body5 = Some 5000 \<and> valid_count 5000 \<and> valid_min0 (sb_distance steps_body5)
   \<and> valid_min0 (sb_caloriesBurned steps_body5)
   \<and> steps_post_week db_steps 7 (sb_week steps_body5) (jan2024 9) = (3, Some 0)
   \<and> steps_post_week db_steps 7 None (jan2024 9) = (2, Some 0)
   \<and> steps_post db_steps 7 steps_body5 (jan2024 9) 0
       = (Json 201 (steps_old\<lparr>steps_count := 5000, steps_goal := 10000, steps_caloriesBurned := Some 300\<rparr>),
          db_steps\<lparr>stepsEntries := [steps_old\<lparr>steps_count := 5000, steps_goal := 10000, steps_caloriesBurned := Some 300\<rparr>]\<rparr>)
   \<and> map steps_week (stepsEntries (snd (steps_post db_steps 7 steps_body5 (jan2024 9) 0))) = [1]
   \<and> map steps_planId (stepsEntries (snd (steps_post db_steps 7 steps_body5 (jan2024 9) 0))) = [None]
   \<and> map steps_date (stepsEntries (snd (steps_post db_steps 7 steps_body5 (jan2024 9) 0))) = [jan2024 5]"
proof -
  have a: "distinct (map steps_id (stepsEntries db_steps))" by (simp add: db_steps_def)
  have b: "find (\<lambda>e. steps_userId e = 7
                \<and> steps_date e = setHours0 0 (case sb_date steps_body5 of Some t \<Rightarrow> t | None \<Rightarrow> jan2024 9))
              (stepsEntries db_steps) = Some steps_old"
    by (simp add: db_steps_def steps_old_def steps_body5_def setHours0_def jan2024_def)
  have c: "sb_count steps_body5 = Some 5000 \<and> valid_count 5000 \<and> valid_min0 (sb_distance steps_body5)
   \<and> valid_min0 (sb_caloriesBurned steps_body5)"
    by (simp add: steps_body5_def valid_count_def valid_min0_def)
  have w3: "steps_post_week db_steps 7 (sb_week steps_body5) (jan2024 9) = (3, Some 0)"
    by (simp add: steps_post_week_def db_steps_def steps_body5_def plan_active_def new_plan_def
        activeOrPaused_def or_else_def Let_def)
  have w2: "steps_post_week db_steps 7 None (jan2024 9) = (2, Some 0)"
    by (simp add: steps_post_week_def db_steps_def plan_active_def new_plan_def activeOrPaused_def
        or_else_def calculateCurrentWeek_def jan2024_def Let_def)
  have ev: "steps_post db_steps 7 steps_body5 (jan2024 9) 0
       = (Json 201 (steps_old\<lparr>steps_count := 5000, steps_goal := 10000, steps_caloriesBurned := Some 300\<rparr>),
          db_steps\<lparr>stepsEntries := [steps_old\<lparr>steps_count := 5000, steps_goal := 10000, steps_caloriesBurned := Some 300\<rparr>]\<rparr>)"
    by (simp add: steps_post_def steps_post_week_def db_steps_def steps_old_def steps_body5_def plan_active_def
        new_plan_def default_goals_def activeOrPaused_def or_else_def setHours0_def jan2024_def valid_count_def
        valid_min0_def save_steps_def calculateCurrentWeek_def Let_def)
  note r = steps_post_existing_entry_frame [OF a b, of 5000, unfolded Let_def]
  have s: "map steps_week (stepsEntries db_steps) = [1]" "map steps_planId (stepsEntries db_steps) = [None]"
    "map steps_date (stepsEntries db_steps) = [jan2024 5]"
    by (simp_all add: db_steps_def steps_old_def)
  show ?thesis
    by (intro conjI a b c [THEN conjunct1] c [THEN conjunct2, THEN conjunct1]
        c [THEN conjunct2, THEN conjunct2, THEN conjunct1] c [THEN conjunct2, THEN conjunct2, THEN conjunct2]
        w3 w2 ev r [THEN conjunct1, unfolded s] r [THEN conjunct2, THEN conjunct1, unfolded s]
        r [THEN conjunct2, THEN conjunct2, THEN conjunct1, unfolded s])
qed

end
